theory Spec2Isabelle
  imports Main
begin

section \<open>JavaScript values handled by the ingestion route\<close>

text \<open>
  \<^verbatim>\<open>src/app/api/interactions/route.ts\<close> receives the request body through
  \<^verbatim>\<open>request.json()\<close>, that is, as the value \<^verbatim>\<open>JSON.parse\<close> builds from the body
  text. Such a value is \<^verbatim>\<open>null\<close>, a boolean, a number, a string, an array or a plain
  object whose own properties, each key once, are kept in property order. A number is
  finite, or it is \<^verbatim>\<open>Infinity\<close> or \<^verbatim>\<open>-Infinity\<close>, which \<^verbatim>\<open>JSON.parse\<close> gives for a
  literal beyond the range of a double such as \<^verbatim>\<open>1e999\<close>. Finite numbers are opaque to
  the handler (it only tests \<^verbatim>\<open>typeof\<close> and passes them on), so their type is a
  parameter \<open>'n\<close>. The JavaScript value \<^verbatim>\<open>undefined\<close> (the result of reading
  a property an object does not have) is \<open>None\<close> of \<open>'n json option\<close>.
\<close>

datatype 'n js_number = Finite 'n | Infinity | MinusInfinity

datatype 'n json =
    JNull
  | JBool bool
  | JNum "'n js_number"
  | JStr string
  | JArr "'n json list"
  | JObj "(string \<times> 'n json) list"

text \<open>\<^verbatim>\<open>data[key]\<close> on a plain object.\<close>

definition get_prop :: "(string \<times> 'n json) list \<Rightarrow> string \<Rightarrow> 'n json option" where
  "get_prop kvs k = map_of kvs k"

section \<open>The schema library (zod 3) as far as the route uses it\<close>

text \<open>
  The route builds its two schemas from \<^verbatim>\<open>z.string()\<close>, \<^verbatim>\<open>z.number()\<close>,
  \<^verbatim>\<open>z.any()\<close>, \<^verbatim>\<open>.optional()\<close>, \<^verbatim>\<open>z.array\<close>, \<^verbatim>\<open>z.record\<close> (one argument: string
  keys, the given value schema) and \<^verbatim>\<open>z.object\<close> (default mode: unknown keys are
  stripped). A schema is a term of the datatype \<open>schema\<close>; \<open>parse\<close> is the library's
  synchronous \<^verbatim>\<open>_parse\<close>.
\<close>

datatype schema =
    ZString
  | ZNumber
  | ZAny
  | ZOptional schema
  | ZArray schema
  | ZRecord schema
  | ZObject "(string \<times> schema) list"

text \<open>The library's \<^verbatim>\<open>getParsedType\<close>, on the values above.\<close>

datatype ZodParsedType =
  t_undefined | t_null | t_boolean | t_number | t_string | t_array | t_object

fun getParsedType :: "'n json option \<Rightarrow> ZodParsedType" where
  "getParsedType None = t_undefined"
| "getParsedType (Some JNull) = t_null"
| "getParsedType (Some (JBool b)) = t_boolean"
| "getParsedType (Some (JNum n)) = t_number"
| "getParsedType (Some (JStr s)) = t_string"
| "getParsedType (Some (JArr xs)) = t_array"
| "getParsedType (Some (JObj kvs)) = t_object"

text \<open>
  Every issue these schemas can raise has code \<^verbatim>\<open>invalid_type\<close>; it records the
  expected and the received type and the path of keys and indices to the value.
\<close>

datatype path_elem = Key string | Index nat

record issue =
  expected :: ZodParsedType
  received :: ZodParsedType
  path :: "path_elem list"

definition invalid_type :: "ZodParsedType \<Rightarrow> 'n json option \<Rightarrow> path_elem list \<Rightarrow> issue" where
  "invalid_type e v p = \<lparr>expected = e, received = getParsedType v, path = p\<rparr>"

text \<open>
  A parse returns the issues it found (\<open>Inl\<close>, never empty) or the parsed value
  (\<open>Inr\<close>). Arrays and objects parse all their members before they fail, so the issues
  of all members are collected in traversal order.
\<close>

type_synonym 'n parse_result = "issue list + 'n json option"

definition issues_of :: "'n parse_result \<Rightarrow> issue list" where
  "issues_of r = (case r of Inl is \<Rightarrow> is | Inr v \<Rightarrow> [])"

text \<open>
  \<^verbatim>\<open>ParseStatus.mergeArray\<close>: invalid if a member is invalid, else the array of the
  members' values. (A member parsed to \<^verbatim>\<open>undefined\<close> cannot come from a JSON array;
  \<^verbatim>\<open>JSON.stringify\<close> would print it as \<^verbatim>\<open>null\<close>.)
\<close>

definition mergeArray :: "'n parse_result list \<Rightarrow> 'n parse_result" where
  "mergeArray rs =
     (if list_ex isl rs then Inl (concat (map issues_of rs))
      else Inr (Some (JArr (map (\<lambda>r. case r of Inr (Some v) \<Rightarrow> v | _ \<Rightarrow> JNull) rs))))"

text \<open>
  \<^verbatim>\<open>ParseStatus.mergeObjectSync\<close>: invalid if a member is invalid; else a fresh object
  that receives the pairs in order. The library skips the key \<^verbatim>\<open>__proto__\<close>
  (\<^verbatim>\<open>key.value !== "__proto__"\<close>, its guard against prototype pollution), and a
  member whose value is \<^verbatim>\<open>undefined\<close> leaves no property that \<^verbatim>\<open>JSON.stringify\<close>
  would print.
\<close>

definition keep_pair :: "string \<times> 'n parse_result \<Rightarrow> (string \<times> 'n json) list" where
  "keep_pair kr =
     (case kr of
        (k, Inr (Some v)) \<Rightarrow> (if k \<noteq> ''__proto__'' then [(k, v)] else [])
      | _ \<Rightarrow> [])"

definition mergeObjectSync :: "(string \<times> 'n parse_result) list \<Rightarrow> 'n parse_result" where
  "mergeObjectSync pairs =
     (if list_ex (\<lambda>kr. isl (snd kr)) pairs then Inl (concat (map (\<lambda>kr. issues_of (snd kr)) pairs))
      else Inr (Some (JObj (concat (map keep_pair pairs)))))"

fun parse :: "schema \<Rightarrow> path_elem list \<Rightarrow> 'n json option \<Rightarrow> 'n parse_result" where
  "parse ZString p v =
     (case v of Some (JStr s) \<Rightarrow> Inr v | _ \<Rightarrow> Inl [invalid_type t_string v p])"
| "parse ZNumber p v =
     (case v of Some (JNum n) \<Rightarrow> Inr v | _ \<Rightarrow> Inl [invalid_type t_number v p])"
| "parse ZAny p v = Inr v"
| "parse (ZOptional s) p v =
     (case v of None \<Rightarrow> Inr None | Some x \<Rightarrow> parse s p v)"
| "parse (ZArray s) p v =
     (case v of
        Some (JArr xs) \<Rightarrow>
          mergeArray (map (\<lambda>ix. parse s (p @ [Index (fst ix)]) (Some (snd ix))) (enumerate 0 xs))
      | _ \<Rightarrow> Inl [invalid_type t_array v p])"
| "parse (ZRecord s) p v =
     (case v of
        Some (JObj kvs) \<Rightarrow>
          mergeObjectSync (map (\<lambda>kx. (fst kx, parse s (p @ [Key (fst kx)]) (Some (snd kx)))) kvs)
      | _ \<Rightarrow> Inl [invalid_type t_object v p])"
| "parse (ZObject shape) p v =
     (case v of
        Some (JObj kvs) \<Rightarrow>
          mergeObjectSync (map (\<lambda>ks. (fst ks, parse (snd ks) (p @ [Key (fst ks)]) (get_prop kvs (fst ks)))) shape)
      | _ \<Rightarrow> Inl [invalid_type t_object v p])"

text \<open>
  \<^verbatim>\<open>schema.parse(data)\<close>: the parsed value, or a thrown \<^verbatim>\<open>ZodError\<close> that carries the
  issues. The other exceptions the route can meet are the \<^verbatim>\<open>SyntaxError\<close> of
  \<^verbatim>\<open>request.json()\<close> on a body that is not JSON text, the \<^verbatim>\<open>RangeError\<close> of
  \<^verbatim>\<open>JSON.stringify\<close> when the call stack is exhausted, and the system error that
  \<^verbatim>\<open>spawn\<close> throws, with its message.
\<close>

datatype exn = ZodError "issue list" | SyntaxError | RangeError | ErrnoException string

definition schema_parse :: "schema \<Rightarrow> 'n json \<Rightarrow> exn + 'n json option" where
  "schema_parse s data =
     (case parse s [] (Some data) of Inl is \<Rightarrow> Inl (ZodError is) | Inr v \<Rightarrow> Inr v)"

section \<open>The route's schemas (route.ts, lines 7 to 21)\<close>

definition EventSchema :: schema where
  "EventSchema = ZObject
     [(''id'', ZString),
      (''type'', ZString),
      (''timestamp'', ZNumber),
      (''tabId'', ZNumber),
      (''windowId'', ZNumber),
      (''url'', ZOptional ZString),
      (''title'', ZOptional ZString),
      (''payload'', ZRecord ZAny)]"

definition BatchSchema :: schema where
  "BatchSchema = ZObject
     [(''events'', ZArray EventSchema),
      (''timestamp'', ZNumber)]"

section \<open>\<^verbatim>\<open>JSON.stringify\<close>, \<^verbatim>\<open>path.join\<close> and template literals\<close>

text \<open>
  \<^verbatim>\<open>QuoteJSONString\<close> of ECMAScript: the quote and the backslash are escaped, the
  control characters below 0x20 are written \<^verbatim>\<open>\b \t \n \f \r\<close> or as a
  \<^verbatim>\<open>\u00XX\<close> escape with lower-case hex digits, every other character stands for
  itself. A \<open>string\<close> here is the UTF-8 text of the JavaScript string.
\<close>

definition hex_digit :: "nat \<Rightarrow> char" where
  "hex_digit d = ''0123456789abcdef'' ! (d mod 16)"

definition escape_char :: "char \<Rightarrow> string" where
  "escape_char c =
     (if c = CHR 0x22 then [CHR 0x5C, CHR 0x22]
      else if c = CHR 0x5C then [CHR 0x5C, CHR 0x5C]
      else if c = CHR 0x08 then [CHR 0x5C, CHR ''b'']
      else if c = CHR 0x09 then [CHR 0x5C, CHR ''t'']
      else if c = CHR 0x0A then [CHR 0x5C, CHR ''n'']
      else if c = CHR 0x0C then [CHR 0x5C, CHR ''f'']
      else if c = CHR 0x0D then [CHR 0x5C, CHR ''r'']
      else if (of_char c :: nat) < 32
        then [CHR 0x5C, CHR ''u'', CHR ''0'', CHR ''0'',
              hex_digit (of_char c div 16), hex_digit (of_char c)]
      else [c])"

definition QuoteJSONString :: "string \<Rightarrow> string" where
  "QuoteJSONString s = [CHR 0x22] @ concat (map escape_char s) @ [CHR 0x22]"

fun join_with :: "string \<Rightarrow> string list \<Rightarrow> string" where
  "join_with sep [] = []"
| "join_with sep [x] = x"
| "join_with sep (x # y # ys) = x @ sep @ join_with sep (y # ys)"

text \<open>
  \<^verbatim>\<open>SerializeJSONProperty\<close> without indentation; \<open>num\<close> prints a finite number the
  way \<^verbatim>\<open>JSON.stringify\<close> does, and a number that is not finite is printed as
  \<^verbatim>\<open>null\<close>.
\<close>

fun SerializeJSONProperty :: "('n \<Rightarrow> string) \<Rightarrow> 'n json \<Rightarrow> string" where
  "SerializeJSONProperty num JNull = ''null''"
| "SerializeJSONProperty num (JBool b) = (if b then ''true'' else ''false'')"
| "SerializeJSONProperty num (JNum n) = (case n of Finite x \<Rightarrow> num x | _ \<Rightarrow> ''null'')"
| "SerializeJSONProperty num (JStr s) = QuoteJSONString s"
| "SerializeJSONProperty num (JArr xs) =
     ''['' @ join_with '','' (map (SerializeJSONProperty num) xs) @ '']''"
| "SerializeJSONProperty num (JObj kvs) =
     ''{'' @ join_with '',''
        (map (\<lambda>kv. QuoteJSONString (fst kv) @ '':'' @ SerializeJSONProperty num (snd kv)) kvs) @ ''}''"

text \<open>
  The serialisation descends once for every level of arrays and objects inside a value.
\<close>

fun nesting :: "'n json \<Rightarrow> nat" where
  "nesting (JArr xs) = Suc (foldr max (map nesting xs) 0)"
| "nesting (JObj kvs) = Suc (foldr max (map (\<lambda>kv. nesting (snd kv)) kvs) 0)"
| "nesting v = 0"

text \<open>
  \<^verbatim>\<open>JSON.stringify(value)\<close>. The call recurses with the nesting of the value and throws
  \<^verbatim>\<open>RangeError\<close> (maximum call stack size exceeded) when the value is nested deeper than
  the stack allows; \<open>depth\<close> is the nesting the stack of the server holds.
  \<^verbatim>\<open>JSON.stringify(undefined)\<close> is \<^verbatim>\<open>undefined\<close>, not a string.
\<close>

definition JSON_stringify :: "nat \<Rightarrow> ('n \<Rightarrow> string) \<Rightarrow> 'n json option \<Rightarrow> exn + string option" where
  "JSON_stringify depth num v =
     (case v of
        None \<Rightarrow> Inr None
      | Some x \<Rightarrow>
          (if depth < nesting x then Inl RangeError
           else Inr (Some (SerializeJSONProperty num x))))"

text \<open>
  \<^verbatim>\<open>path.join(a, b)\<close> for the paths of the route: \<open>a\<close> is \<^verbatim>\<open>process.cwd()\<close>, an
  absolute normalised path, and \<open>b\<close> one of three relative constants without
  \<^verbatim>\<open>.\<close> or \<^verbatim>\<open>..\<close> segments, so that joining is all that normalisation leaves.
\<close>

definition path_join :: "string \<Rightarrow> string \<Rightarrow> string" where
  "path_join a b =
     (if a = [] then b else if last a = CHR ''/'' then a @ b else a @ ''/'' @ b)"

text \<open>The decimal text of an exit code in a template literal; \<^verbatim>\<open>null\<close> prints as such.\<close>

fun digits :: "nat \<Rightarrow> string" where
  "digits n =
     (if n < 10 then [''0123456789'' ! n] else digits (n div 10) @ [''0123456789'' ! (n mod 10)])"

declare digits.simps [simp del]

definition code_text :: "int option \<Rightarrow> string" where
  "code_text c =
     (case c of
        None \<Rightarrow> ''null''
      | Some i \<Rightarrow> (if i < 0 then ''-'' @ digits (nat (- i)) else digits (nat i)))"

section \<open>The handler \<^verbatim>\<open>POST\<close> (route.ts, lines 23 to 87)\<close>

text \<open>
  What the handler meets in its surroundings: the working directory of the server
  process, which files exist, how \<^verbatim>\<open>JSON.stringify\<close> prints a finite number, the
  nesting its call stack holds, and the length from which the operating system refuses
  an argument of a new process (131072 bytes on Linux, the terminating zero counted).
\<close>

record 'n runtime =
  cwd :: string
  existsSync :: "string \<Rightarrow> bool"
  number_text :: "'n \<Rightarrow> string"
  stack_depth :: nat
  max_arg_strlen :: nat

text \<open>
  The request, as far as the handler looks at it: its body is the JSON text of a value,
  or it is not JSON text, and then \<^verbatim>\<open>await request.json()\<close> throws.
\<close>

datatype 'n request = NotJSON | JSON "'n json"

definition request_json :: "'n request \<Rightarrow> exn + 'n json" where
  "request_json req = (case req of NotJSON \<Rightarrow> Inl SyntaxError | JSON v \<Rightarrow> Inr v)"

text \<open>
  The three bodies \<^verbatim>\<open>NextResponse.json\<close> is called with, and the status (200 when the
  call names none).
\<close>

datatype response_body =
    Success bool string
  | InvalidPayload string "issue list"
  | Failure string

record response =
  json_body :: response_body
  status :: nat

text \<open>
  The call of \<^verbatim>\<open>spawn\<close>: command, arguments and working directory (stdio is piped).
  An argument is a string, or \<^verbatim>\<open>undefined\<close> where \<^verbatim>\<open>JSON.stringify\<close> returns that.
\<close>

record spawn_call =
  command :: string
  args :: "string option list"
  spawn_cwd :: string

text \<open>Calls of \<^verbatim>\<open>console.log\<close> and \<^verbatim>\<open>console.error\<close> with their arguments.\<close>

datatype console_arg = Text string | Thrown exn | Issues "issue list"

datatype console_call = console_log "console_arg list" | console_error "console_arg list"

text \<open>
  \<^verbatim>\<open>spawn(command, args, options)\<close>. A process that cannot start because the command
  is not found reports it later, through its \<^verbatim>\<open>error\<close> event; an argument the
  operating system refuses for its length makes \<^verbatim>\<open>spawn\<close> itself throw
  (\<^verbatim>\<open>spawn E2BIG\<close>), and then there is no process.
\<close>

definition spawn :: "'n runtime \<Rightarrow> spawn_call \<Rightarrow> exn + spawn_call" where
  "spawn rt call =
     (if list_ex (\<lambda>a. case a of Some s \<Rightarrow> max_arg_strlen rt \<le> length s | None \<Rightarrow> False) (args call)
      then Inl (ErrnoException ''spawn E2BIG'')
      else Inr call)"

text \<open>
  Lines 29 to 45: the interpreter is chosen, the batch is serialised and the process
  spawned; either of the last two may throw.
\<close>

definition start_pipeline :: "'n runtime \<Rightarrow> 'n json option \<Rightarrow> exn + spawn_call" where
  "start_pipeline rt batch =
     (let venvPython = path_join (cwd rt) ''src/server/python/venv/bin/python'';
          pythonExecutable = (if existsSync rt venvPython then venvPython else ''python3'')
      in case JSON_stringify (stack_depth rt) (number_text rt) batch of
           Inl e \<Rightarrow> Inl e
         | Inr arg \<Rightarrow>
             spawn rt
               \<lparr>command = pythonExecutable,
                args = [Some (path_join (cwd rt) ''src/server/python/group_flows.py''), arg],
                spawn_cwd = path_join (cwd rt) ''src/server/python''\<rparr>)"

text \<open>
  The \<^verbatim>\<open>try\<close> block up to its \<^verbatim>\<open>return\<close>: the response and the process it spawned,
  or the exception that leaves the block.
\<close>

definition POST_try :: "'n runtime \<Rightarrow> 'n request \<Rightarrow> exn + response \<times> spawn_call" where
  "POST_try rt request =
     (case request_json request of
        Inl e \<Rightarrow> Inl e
      | Inr body \<Rightarrow>
          (case schema_parse BatchSchema body of
             Inl e \<Rightarrow> Inl e
           | Inr batch \<Rightarrow>
               (case start_pipeline rt batch of
                  Inl e \<Rightarrow> Inl e
                | Inr pythonProcess \<Rightarrow>
                    Inr (\<lparr>json_body = Success True ''Processing started in background'', status = 200\<rparr>,
                         pythonProcess))))"

text \<open>The \<^verbatim>\<open>catch\<close> block: what it logs and what it returns.\<close>

definition POST_catch :: "exn \<Rightarrow> response \<times> console_call list" where
  "POST_catch e =
     (case e of
        ZodError is \<Rightarrow>
          (\<lparr>json_body = InvalidPayload ''Invalid payload'' is, status = 400\<rparr>,
           [console_error [Text ''Error processing request:'', Thrown e],
            console_log [Text ''Validation errors:'', Issues is]])
      | _ \<Rightarrow>
          (\<lparr>json_body = Failure ''Internal server error'', status = 500\<rparr>,
           [console_error [Text ''Error processing request:'', Thrown e]]))"

text \<open>
  A call of the handler: its response, the processes it spawned and its console output;
  \<open>Inl\<close> would be an exception that escapes the handler.
\<close>

record outcome =
  response :: response
  spawned :: "spawn_call list"
  console :: "console_call list"

definition POST :: "'n runtime \<Rightarrow> 'n request \<Rightarrow> exn + outcome" where
  "POST rt request =
     (case POST_try rt request of
        Inr (r, p) \<Rightarrow> Inr \<lparr>response = r, spawned = [p], console = []\<rparr>
      | Inl e \<Rightarrow>
          (case POST_catch e of
             (r, out) \<Rightarrow> Inr \<lparr>response = r, spawned = [], console = out\<rparr>))"

text \<open>
  After the handler has returned, the child process emits events; the listeners the
  handler registered (lines 48 to 64) only write to the console.
\<close>

datatype proc_event =
    stdout_data string
  | stderr_data string
  | close_event "int option"
  | error_event string

fun on_event :: "proc_event \<Rightarrow> console_call" where
  "on_event (stdout_data d) = console_log [Text (''[Python stdout]: '' @ d)]"
| "on_event (stderr_data d) = console_error [Text (''[Python stderr]: '' @ d)]"
| "on_event (close_event c) = console_log [Text (''[Python process] Exited with code: '' @ code_text c)]"
| "on_event (error_event m) = console_error [Text (''[Python process] Error: '' @ m)]"

text \<open>
  A request from arrival to the end of the process it started: the handler's outcome,
  then the events \<open>evs\<close> of the child, if there is one, delivered to the listeners.
\<close>

definition serve :: "'n runtime \<Rightarrow> 'n request \<Rightarrow> proc_event list \<Rightarrow> exn + outcome" where
  "serve rt request evs =
     (case POST rt request of
        Inl e \<Rightarrow> Inl e
      | Inr out \<Rightarrow>
          Inr (if spawned out = [] then out
               else out\<lparr>console := console out @ map on_event evs\<rparr>))"

section \<open>Reading a batch\<close>

text \<open>
  The events of a batch object, the payload mapping of an event object and the keys of
  an object, for stating what reaches the pipeline process.
\<close>

definition events_of :: "'n json \<Rightarrow> 'n json list" where
  "events_of b =
     (case b of
        JObj kvs \<Rightarrow> (case get_prop kvs ''events'' of Some (JArr es) \<Rightarrow> es | _ \<Rightarrow> [])
      | _ \<Rightarrow> [])"

definition payload_of :: "'n json \<Rightarrow> (string \<times> 'n json) list" where
  "payload_of e =
     (case e of
        JObj kvs \<Rightarrow> (case get_prop kvs ''payload'' of Some (JObj pl) \<Rightarrow> pl | _ \<Rightarrow> [])
      | _ \<Rightarrow> [])"



text \<open>
  \<^verbatim>\<open>typeof\<close> tests on a property that may be missing: a string, a number, a plain object
  (neither an array nor \<^verbatim>\<open>null\<close>), and a string or nothing at all.
\<close>

fun is_string :: "'n json option \<Rightarrow> bool" where
  "is_string (Some (JStr s)) = True"
| "is_string v = False"

fun is_number :: "'n json option \<Rightarrow> bool" where
  "is_number (Some (JNum n)) = True"
| "is_number v = False"

fun is_object :: "'n json option \<Rightarrow> bool" where
  "is_object (Some (JObj kvs)) = True"
| "is_object v = False"

fun is_optional_string :: "'n json option \<Rightarrow> bool" where
  "is_optional_string None = True"
| "is_optional_string v = is_string v"

section \<open>The accepted bodies, in the words of the specification\<close>

text \<open>
  An event has string \<^verbatim>\<open>id\<close> and \<^verbatim>\<open>type\<close>, numeric \<^verbatim>\<open>timestamp\<close>, \<^verbatim>\<open>tabId\<close> and
  \<^verbatim>\<open>windowId\<close>, optional string \<^verbatim>\<open>url\<close> and \<^verbatim>\<open>title\<close> and an object-valued
  \<^verbatim>\<open>payload\<close>; a body is an object with a numeric \<^verbatim>\<open>timestamp\<close> and an array
  \<^verbatim>\<open>events\<close> of such events.
\<close>

definition spec_valid_event :: "'n json \<Rightarrow> bool" where
  "spec_valid_event e =
     (case e of
        JObj kvs \<Rightarrow>
          is_string (get_prop kvs ''id'') \<and> is_string (get_prop kvs ''type'') \<and>
          is_number (get_prop kvs ''timestamp'') \<and> is_number (get_prop kvs ''tabId'') \<and>
          is_number (get_prop kvs ''windowId'') \<and>
          is_optional_string (get_prop kvs ''url'') \<and> is_optional_string (get_prop kvs ''title'') \<and>
          is_object (get_prop kvs ''payload'')
      | _ \<Rightarrow> False)"

definition spec_valid_body :: "'n json \<Rightarrow> bool" where
  "spec_valid_body b =
     (case b of
        JObj kvs \<Rightarrow>
          is_number (get_prop kvs ''timestamp'') \<and>
          (case get_prop kvs ''events'' of
             Some (JArr es) \<Rightarrow> list_all spec_valid_event es
           | _ \<Rightarrow> False)
      | _ \<Rightarrow> False)"

section \<open>The value a valid batch parses to\<close>

text \<open>
  For an event that matches the schema, \<^verbatim>\<open>z.object\<close> builds a fresh object with the
  schema's keys in the schema's order (an absent optional key stays absent) and the
  payload rebuilt by \<^verbatim>\<open>z.record\<close>; for a batch, the events and the timestamp. Both are
  shown below to be what \<open>parse\<close> returns.
\<close>

definition strip_event :: "'n json \<Rightarrow> 'n json" where
  "strip_event e =
     (case e of
        JObj kvs \<Rightarrow>
          JObj (concat (map (\<lambda>k. keep_pair (k, Inr (get_prop kvs k)))
                  [''id'', ''type'', ''timestamp'', ''tabId'', ''windowId'', ''url'', ''title''])
                @ [(''payload'', JObj (filter (\<lambda>kv. fst kv \<noteq> ''__proto__'') (payload_of e)))])
      | _ \<Rightarrow> e)"

definition strip_batch :: "'n json \<Rightarrow> 'n json" where
  "strip_batch b =
     (case b of
        JObj kvs \<Rightarrow>
          JObj ([(''events'', JArr (map strip_event (events_of b)))]
                @ keep_pair (''timestamp'', Inr (get_prop kvs ''timestamp'')))
      | _ \<Rightarrow> b)"

text \<open>The response of line 67 and the response of the generic \<^verbatim>\<open>catch\<close> branch.\<close>

definition started :: response where
  "started = \<lparr>json_body = Success True ''Processing started in background'', status = 200\<rparr>"

definition internal_error :: response where
  "internal_error = \<lparr>json_body = Failure ''Internal server error'', status = 500\<rparr>"


text \<open>
  A response tells its caller of a failure when its status is an error status or its
  body is not the success body.
\<close>

definition reports_failure :: "response \<Rightarrow> bool" where
  "reports_failure r =
     (400 \<le> status r \<or> (case json_body r of Success ok m \<Rightarrow> \<not> ok | _ \<Rightarrow> True))"

section \<open>Example inputs\<close>

text \<open>
  A Linux server in \<^verbatim>\<open>/app\<close> without a virtual environment, finite numbers that are
  naturals printed in decimal, a stack that holds a nesting of 1000, and a batch of one
  event with a field the schema does not know.
\<close>

definition demo_runtime :: "nat runtime" where
  "demo_runtime =
     \<lparr>cwd = ''/app'', existsSync = (\<lambda>p. False), number_text = digits,
      stack_depth = 1000, max_arg_strlen = 131072\<rparr>"

definition demo_event :: "nat json" where
  "demo_event = JObj
     [(''id'', JStr ''e1''), (''type'', JStr ''click''), (''timestamp'', JNum (Finite 17)),
      (''tabId'', JNum (Finite 2)), (''windowId'', JNum (Finite 1)), (''url'', JStr ''https://jira.com''),
      (''screen'', JStr ''wide''),
      (''payload'', JObj [(''x'', JNum (Finite 3)), (''target'', JObj [(''tag'', JStr ''a'')])])]"

definition demo_batch :: "nat json" where
  "demo_batch = JObj [(''events'', JArr [demo_event]), (''timestamp'', JNum (Finite 20))]"





text \<open>
  A valid batch of one event whose \<^verbatim>\<open>id\<close> is a string of 131072 characters, so that
  its JSON text is longer than an argument of a process may be on Linux.
\<close>

definition big_string :: string where
  "big_string = replicate 131072 (CHR ''a'')"

definition big_batch :: "nat json" where
  "big_batch = JObj
     [(''events'', JArr [JObj
        [(''id'', JStr big_string), (''type'', JStr ''click''), (''timestamp'', JNum (Finite 17)),
         (''tabId'', JNum (Finite 2)), (''windowId'', JNum (Finite 1)), (''payload'', JObj [])]]),
      (''timestamp'', JNum (Finite 20))]"

section \<open>The extraction pipeline, from the specification\<close>

text \<open>
  The pipeline runs in \<^verbatim>\<open>src/server/python/group_flows.py\<close>, which the route spawns and
  which is not among the sources at hand. Its stages BoundaryDetector, WorkflowClassifier
  and Deduplicator are modelled from the specification (sections 3, 4.3, 4.4, 4.6 and 7).
\<close>

subsection \<open>BoundaryDetector\<close>

text \<open>Modelled from the spec: the entity TabSessionSummary of section 3 (the code that builds it is
  missing): \<^verbatim>\<open>{sessionId, tabId, url, title, activitySummary, viewportSummary, startTs,
  endTs}\<close>.
\<close>

record TabSessionSummary =
  sessionId :: string
  tabId :: int
  url :: string
  title :: string
  activitySummary :: string
  viewportSummary :: string
  startTs :: int
  endTs :: int

text \<open>Modelled from the spec: the entity WorkflowCandidate of section 3, a contiguous ordered run
  of summaries with \<^verbatim>\<open>{startTs, endTs, memberSessionIds}\<close>.
\<close>

record WorkflowCandidate =
  candidate_startTs :: int
  candidate_endTs :: int
  memberSessionIds :: "string list"

text \<open>Modelled from the spec: the configuration of the missing BoundaryDetector (section 4.3): the
  gap threshold, the maximum span of a window (counted in summaries) and the topical or
  tool continuity inferred from summary content, which the specification leaves open and
  which is a parameter here.
\<close>

record detector_config =
  gap_threshold :: int
  max_span :: nat
  topical_continuity :: "TabSessionSummary list \<Rightarrow> TabSessionSummary \<Rightarrow> bool"

text \<open>Modelled from the spec: the continuity predicate of the missing BoundaryDetector, "temporal
  proximity below a configured gap threshold AND topical/tool continuity", between the
  window (its first summary and those grown onto it) and the next summary.
\<close>

definition continuity :: "detector_config \<Rightarrow> TabSessionSummary \<Rightarrow> TabSessionSummary list \<Rightarrow> TabSessionSummary \<Rightarrow> bool" where
  "continuity cfg first grown s =
     (startTs s - endTs (last (first # grown)) < gap_threshold cfg \<and>
      topical_continuity cfg (first # grown) s)"

text \<open>Modelled from the spec: closing a window of the missing BoundaryDetector emits one candidate,
  from the start of its first summary to the end of its last, with the session ids of its
  members in order.
\<close>

definition close_window :: "TabSessionSummary \<Rightarrow> TabSessionSummary list \<Rightarrow> WorkflowCandidate" where
  "close_window first grown =
     \<lparr>candidate_startTs = startTs first,
      candidate_endTs = endTs (last (first # grown)),
      memberSessionIds = map sessionId (first # grown)\<rparr>"

text \<open>Modelled from the spec: the expanding-window scan of the missing BoundaryDetector. The window
  grows by one summary at a time while the continuity predicate holds; it closes at the
  first point the predicate fails or the maximum span is reached, and the next window
  starts at the first summary not yet in a candidate. A window of one summary is
  permitted.
\<close>

fun expand_window ::
  "detector_config \<Rightarrow> TabSessionSummary \<Rightarrow> TabSessionSummary list \<Rightarrow> TabSessionSummary list \<Rightarrow> WorkflowCandidate list" where
  "expand_window cfg first grown [] = [close_window first grown]"
| "expand_window cfg first grown (s # rest) =
     (if Suc (length grown) < max_span cfg \<and> continuity cfg first grown s
      then expand_window cfg first (grown @ [s]) rest
      else close_window first grown # expand_window cfg s [] rest)"

text \<open>Modelled from the spec: the missing BoundaryDetector: from the ordered summaries of a batch
  to the ordered candidates, one greedy pass from left to right.
\<close>

definition BoundaryDetector :: "detector_config \<Rightarrow> TabSessionSummary list \<Rightarrow> WorkflowCandidate list" where
  "BoundaryDetector cfg summaries =
     (case summaries of [] \<Rightarrow> [] | s # rest \<Rightarrow> expand_window cfg s [] rest)"

subsection \<open>WorkflowClassifier\<close>

text \<open>Modelled from the spec: the three labels of the missing WorkflowClassifier (section 4.4).
\<close>

datatype label = WORKFLOW | NOISE | UNFINISHED

text \<open>Modelled from the spec: what the external classification capability gives the missing
  WorkflowClassifier: a failure (network, timeout), or a response text that may or may
  not be one of the three labels.
\<close>

datatype capability_reply = capability_failed | reply string

text \<open>Modelled from the spec: the validation of the response by the missing WorkflowClassifier:
  one of the three permitted labels is taken as it is, an out-of-vocabulary response is
  treated as NOISE, and so is a failure of the capability (section 7, the fail-safe
  default).
\<close>

definition validate_label :: "capability_reply \<Rightarrow> label" where
  "validate_label r =
     (case r of
        capability_failed \<Rightarrow> NOISE
      | reply answer \<Rightarrow>
          (if answer = ''WORKFLOW'' then WORKFLOW
           else if answer = ''UNFINISHED'' then UNFINISHED
           else NOISE))"

text \<open>Modelled from the spec: the missing WorkflowClassifier: it sends the candidate and its member
  summaries to the capability and validates the response.
\<close>

definition WorkflowClassifier ::
  "(WorkflowCandidate \<times> TabSessionSummary list \<Rightarrow> capability_reply) \<Rightarrow>
     WorkflowCandidate \<Rightarrow> TabSessionSummary list \<Rightarrow> label" where
  "WorkflowClassifier capability candidate members = validate_label (capability (candidate, members))"

subsection \<open>Deduplicator\<close>

text \<open>Modelled from the spec: the entity ToolRef of section 3, an entry of the tool catalog
  (platform and operation).
\<close>

record ToolRef =
  platform :: string
  operation :: string

text \<open>Modelled from the spec: the two roles of a step, \<^verbatim>\<open>tool\<close> and \<^verbatim>\<open>browser_context\<close>.
\<close>

datatype role = Tool | BrowserContext

text \<open>Modelled from the spec: the entity WorkflowStep of section 3, \<^verbatim>\<open>{order, description, role,
  tool?}\<close>.
\<close>

text \<open>Modelled from the spec: the entity Workflow of section 3; its \<^verbatim>\<open>toolSetSignature\<close> is derived
  from the steps and so is a function below, not a field.
\<close>

record WorkflowStep =
  step_order :: nat
  description :: string
  role :: role
  tool :: "ToolRef option"

record Workflow =
  summary :: string
  steps :: "WorkflowStep list"

text \<open>Modelled from the spec: the derived \<^verbatim>\<open>toolSetSignature\<close>, the set of distinct ToolRef across
  the steps of a workflow.
\<close>

definition toolSetSignature :: "Workflow \<Rightarrow> ToolRef set" where
  "toolSetSignature w = set (List.map_filter tool (steps w))"

text \<open>Modelled from the spec: the duplicate test of the missing Deduplicator (section 4.6): two
  workflows are duplicates if their signatures are equal.
\<close>

definition is_duplicate :: "Workflow \<Rightarrow> Workflow \<Rightarrow> bool" where
  "is_duplicate incoming existing = (toolSetSignature incoming = toolSetSignature existing)"

text \<open>Modelled from the spec: the decisions of the missing Deduplicator, \<^verbatim>\<open>{store,
  discard-as-duplicate, merge}\<close>.
\<close>

datatype decision = store | discard_as_duplicate | merge

text \<open>Modelled from the spec: whether a merge policy is configured for the missing Deduplicator;
  discard is the default.
\<close>

datatype merge_policy = no_merge | update_metadata

text \<open>Modelled from the spec: the missing Deduplicator: on a duplicate the incoming workflow is
  discarded unless a merge policy is configured; otherwise it is stored.
\<close>

definition Deduplicator :: "merge_policy \<Rightarrow> Workflow \<Rightarrow> Workflow list \<Rightarrow> decision" where
  "Deduplicator policy incoming stored =
     (if list_ex (is_duplicate incoming) stored
      then (case policy of no_merge \<Rightarrow> discard_as_duplicate | update_metadata \<Rightarrow> merge)
      else store)"

text \<open>Modelled from the spec: what can go wrong when the decision of the missing Deduplicator is
  carried out: the store may refuse a workflow (section 6), a merge may fail (section
  4.6).
\<close>

record run_conditions =
  store_accepts :: bool
  merge_succeeds :: bool

text \<open>Modelled from the spec: the merge of the missing Deduplicator updates metadata of the
  existing record, here its summary, and keeps its steps.
\<close>

definition merge_into :: "Workflow \<Rightarrow> Workflow \<Rightarrow> Workflow" where
  "merge_into incoming existing =
     (if is_duplicate incoming existing then existing\<lparr>summary := summary incoming\<rparr> else existing)"

text \<open>Modelled from the spec: submitting a workflow to the missing Deduplicator and store: a new
  workflow is appended if the store accepts it, a duplicate is discarded, or merged into
  the existing record with discard as the fallback when the merge fails.
\<close>

definition submit :: "merge_policy \<Rightarrow> run_conditions \<Rightarrow> Workflow \<Rightarrow> Workflow list \<Rightarrow> Workflow list" where
  "submit policy cond incoming stored =
     (case Deduplicator policy incoming stored of
        store \<Rightarrow> (if store_accepts cond then stored @ [incoming] else stored)
      | discard_as_duplicate \<Rightarrow> stored
      | merge \<Rightarrow> (if merge_succeeds cond then map (merge_into incoming) stored else stored))"

text \<open>The number of stored records with the tool-set signature of a workflow.\<close>

definition records_with_signature :: "Workflow \<Rightarrow> Workflow list \<Rightarrow> nat" where
  "records_with_signature w stored = length (filter (is_duplicate w) stored)"

subsection \<open>Example inputs of the pipeline\<close>

definition mk_summary :: "string \<Rightarrow> string \<Rightarrow> int \<Rightarrow> int \<Rightarrow> TabSessionSummary" where
  "mk_summary sid u t0 t1 =
     \<lparr>sessionId = sid, tabId = 1, url = u, title = [], activitySummary = [],
      viewportSummary = [], startTs = t0, endTs = t1\<rparr>"

definition demo_summaries :: "TabSessionSummary list" where
  "demo_summaries =
     [mk_summary ''s1'' ''jira.com'' 0 5, mk_summary ''s2'' ''slack.com'' 7 9,
      mk_summary ''s3'' ''news.com'' 100 120]"

definition demo_config :: detector_config where
  "demo_config = \<lparr>gap_threshold = 10, max_span = 5, topical_continuity = (\<lambda>w s. True)\<rparr>"

definition mk_workflow :: "string \<Rightarrow> string list \<Rightarrow> Workflow" where
  "mk_workflow text platforms =
     \<lparr>summary = text,
      steps = map (\<lambda>(i, p). \<lparr>step_order = i, description = p, role = Tool,
                 tool = Some \<lparr>platform = p, operation = ''use''\<rparr>\<rparr>) (enumerate 1 platforms)\<rparr>"

definition demo_workflow :: Workflow where
  "demo_workflow = mk_workflow ''file a ticket from a thread'' [''Jira'', ''Slack'']"

definition demo_conditions :: run_conditions where
  "demo_conditions = \<lparr>store_accepts = True, merge_succeeds = True\<rparr>"

section \<open>Properties of the schemas\<close>

lemma parse_ZString: "parse ZString p v = (if is_string v then Inr v else Inl [invalid_type t_string v p])"
  by (auto split: option.splits json.splits)

lemma parse_ZNumber: "parse ZNumber p v = (if is_number v then Inr v else Inl [invalid_type t_number v p])"
  by (auto split: option.splits json.splits)

lemma parse_optional_ZString:
  "parse (ZOptional ZString) p v =
     (if is_optional_string v then Inr v else Inl [invalid_type t_string v p])"
  by (auto split: option.splits json.splits)

lemma keep_pairs_any:
  "concat (map (\<lambda>kx. keep_pair (fst kx, Inr (Some (snd kx)))) kvs) =
     filter (\<lambda>kv. fst kv \<noteq> ''__proto__'') kvs"
  by (induction kvs) (auto simp: keep_pair_def)

lemma parse_ZRecord_ZAny:
  "parse (ZRecord ZAny) p v =
     (case v of
        Some (JObj kvs) \<Rightarrow> Inr (Some (JObj (filter (\<lambda>kv. fst kv \<noteq> ''__proto__'') kvs)))
      | _ \<Rightarrow> Inl [invalid_type t_object v p])"
  by (auto simp: mergeObjectSync_def keep_pairs_any list_ex_iff comp_def split: option.splits json.splits)

lemma isl_parse_ZRecord_ZAny: "isl (parse (ZRecord ZAny) p v) = (\<not> is_object v)"
  by (auto simp: parse_ZRecord_ZAny simp del: parse.simps split: option.splits json.splits)

lemma parse_ZObject:
  "parse (ZObject shape) p (Some (JObj kvs)) =
     mergeObjectSync (map (\<lambda>ks. (fst ks, parse (snd ks) (p @ [Key (fst ks)]) (get_prop kvs (fst ks)))) shape)"
  by simp

lemma parse_ZObject_other:
  "\<not> is_object v \<Longrightarrow> parse (ZObject shape) p v = Inl [invalid_type t_object v p]"
  by (auto split: option.splits json.splits)

lemma isl_parse_EventSchema: "isl (parse EventSchema p (Some e)) = (\<not> spec_valid_event e)"
proof (cases "is_object (Some e)")
  case False
  then show ?thesis
    by (auto simp: EventSchema_def spec_valid_event_def parse_ZObject_other simp del: parse.simps
        split: json.splits)
next
  case True
  then obtain kvs where e: "e = JObj kvs" by (cases e) auto
  show ?thesis
    unfolding e EventSchema_def spec_valid_event_def parse_ZObject
    by (simp add: mergeObjectSync_def parse_ZString parse_ZNumber parse_optional_ZString
        isl_parse_ZRecord_ZAny del: parse.simps)
qed


lemma keep_pair_simps:
  "keep_pair (k, Inr (Some v)) = (if k \<noteq> ''__proto__'' then [(k, v)] else [])"
  "keep_pair (k, Inr None) = []"
  "keep_pair (k, Inl is) = []"
  by (simp_all add: keep_pair_def)

lemma parse_EventSchema_valid:
  assumes "spec_valid_event e"
  shows "parse EventSchema p (Some e) = Inr (Some (strip_event e))"
proof -
  from assms obtain kvs where e: "e = JObj kvs"
    by (cases e) (auto simp: spec_valid_event_def)
  from assms obtain pl where pl: "get_prop kvs ''payload'' = Some (JObj pl)"
    unfolding e spec_valid_event_def by (cases "get_prop kvs ''payload''" rule: is_object.cases) auto
  from assms show ?thesis
    unfolding e EventSchema_def spec_valid_event_def parse_ZObject strip_event_def payload_of_def
    by (simp add: mergeObjectSync_def parse_ZString parse_ZNumber parse_optional_ZString
        parse_ZRecord_ZAny pl keep_pair_simps del: parse.simps)
qed

lemma parse_ZArray:
  "parse (ZArray s) p (Some (JArr xs)) =
     mergeArray (map (\<lambda>ix. parse s (p @ [Index (fst ix)]) (Some (snd ix))) (enumerate 0 xs))"
  by simp

lemma in_set_enumerate_snd: "ix \<in> set (enumerate n xs) \<Longrightarrow> snd ix \<in> set xs"
  by (metis in_set_zipE enumerate_eq_zip prod.collapse)

lemma events_invalid_iff:
  "list_ex (\<lambda>r. isl r) (map (\<lambda>ix. parse EventSchema (p @ [Index (fst ix)]) (Some (snd ix))) (enumerate n es))
     = (\<not> list_all spec_valid_event es)"
proof -
  have "set (map snd (enumerate n es)) = set es" by (simp add: map_snd_enumerate)
  then have "(\<exists>ix \<in> set (enumerate n es). \<not> spec_valid_event (snd ix)) = (\<exists>e \<in> set es. \<not> spec_valid_event e)"
    by (metis (no_types, lifting) image_iff set_map)
  then show ?thesis
    by (simp add: list_ex_iff list_all_iff isl_parse_EventSchema del: parse.simps)
qed

lemma events_valid_values:
  assumes "list_all spec_valid_event es"
  shows "map (\<lambda>ix. parse EventSchema (p @ [Index (fst ix)]) (Some (snd ix))) (enumerate n es)
           = map (\<lambda>e. Inr (Some (strip_event e))) es"
proof -
  have "map (\<lambda>ix. parse EventSchema (p @ [Index (fst ix)]) (Some (snd ix))) (enumerate n es)
          = map (\<lambda>ix. Inr (Some (strip_event (snd ix)))) (enumerate n es)"
    using assms by (intro map_cong refl parse_EventSchema_valid)
      (auto simp: list_all_iff dest: in_set_enumerate_snd)
  also have "\<dots> = map ((\<lambda>e. Inr (Some (strip_event e))) \<circ> snd) (enumerate n es)"
    by (simp add: comp_def)
  also have "\<dots> = map (\<lambda>e. Inr (Some (strip_event e))) es"
    by (simp only: map_map [symmetric] map_snd_enumerate)
  finally show ?thesis .
qed

lemma parse_ZArray_other:
  "getParsedType v \<noteq> t_array \<Longrightarrow> parse (ZArray s) p v = Inl [invalid_type t_array v p]"
  by (cases v rule: getParsedType.cases) simp_all

lemma parse_events_valid:
  assumes "list_all spec_valid_event es"
  shows "parse (ZArray EventSchema) p (Some (JArr es)) = Inr (Some (JArr (map strip_event es)))"
  unfolding parse_ZArray
  using assms by (simp add: mergeArray_def events_valid_values list_ex_iff comp_def del: parse.simps)

lemma isl_parse_events:
  "isl (parse (ZArray EventSchema) p v) =
     (\<not> (case v of Some (JArr es) \<Rightarrow> list_all spec_valid_event es | _ \<Rightarrow> False))"
proof (cases "getParsedType v = t_array")
  case True
  then obtain es where v: "v = Some (JArr es)"
    by (cases v rule: getParsedType.cases) auto
  show ?thesis
    unfolding v parse_ZArray mergeArray_def
    by (simp add: events_invalid_iff del: parse.simps)
next
  case False
  then show ?thesis
    by (cases v rule: getParsedType.cases) (simp_all add: parse_ZArray_other del: parse.simps)
qed

lemma parse_BatchSchema_valid:
  assumes "spec_valid_body b"
  shows "parse BatchSchema p (Some b) = Inr (Some (strip_batch b))"
proof -
  from assms obtain kvs where b: "b = JObj kvs"
    by (cases b) (auto simp: spec_valid_body_def)
  from assms obtain es where es: "get_prop kvs ''events'' = Some (JArr es)" "list_all spec_valid_event es"
    unfolding b spec_valid_body_def by (auto split: option.splits json.splits)
  from assms have t: "is_number (get_prop kvs ''timestamp'')"
    unfolding b spec_valid_body_def by simp
  show ?thesis
    unfolding b BatchSchema_def parse_ZObject strip_batch_def events_of_def
    using es t
    by (simp add: mergeObjectSync_def parse_ZNumber parse_events_valid keep_pair_simps del: parse.simps)
qed

lemma isl_parse_BatchSchema: "isl (parse BatchSchema p (Some b)) = (\<not> spec_valid_body b)"
proof (cases "is_object (Some b)")
  case False
  then show ?thesis
    by (auto simp: BatchSchema_def spec_valid_body_def parse_ZObject_other simp del: parse.simps
        split: json.splits)
next
  case True
  then obtain kvs where b: "b = JObj kvs" by (cases b) auto
  show ?thesis
    unfolding b BatchSchema_def spec_valid_body_def parse_ZObject
    by (auto simp add: mergeObjectSync_def parse_ZNumber isl_parse_events simp del: parse.simps)
qed

lemma schema_parse_BatchSchema:
  "schema_parse BatchSchema b =
     (if spec_valid_body b then Inr (Some (strip_batch b))
      else Inl (ZodError (issues_of (parse BatchSchema [] (Some b)))))"
  using isl_parse_BatchSchema [of "[]" b] parse_BatchSchema_valid [of b "[]"]
  by (cases "parse BatchSchema [] (Some b)") (auto simp: schema_parse_def issues_of_def)


lemma schema_parse_Inl:
  "schema_parse BatchSchema b = Inl e \<longleftrightarrow>
     \<not> spec_valid_body b \<and> e = ZodError (issues_of (parse BatchSchema [] (Some b)))"
  by (auto simp: schema_parse_BatchSchema)

lemma keys_keep_pair: "fst ` set (keep_pair (k, r)) \<subseteq> {k}"
  by (auto simp: keep_pair_def split: sum.splits option.splits if_splits)






section \<open>The handler on a valid, an invalid and an unreadable body\<close>

lemma spawn_Inr: "spawn rt call = Inr sp \<Longrightarrow> sp = call"
  by (simp add: spawn_def split: if_splits)

lemma spawn_cases: "spawn rt call = Inr call \<or> spawn rt call = Inl (ErrnoException ''spawn E2BIG'')"
  by (simp add: spawn_def)

lemma start_pipeline_Some:
  "start_pipeline rt (Some x) =
     (if stack_depth rt < nesting x then Inl RangeError
      else spawn rt
        \<lparr>command = (if existsSync rt (path_join (cwd rt) ''src/server/python/venv/bin/python'')
                    then path_join (cwd rt) ''src/server/python/venv/bin/python'' else ''python3''),
         args = [Some (path_join (cwd rt) ''src/server/python/group_flows.py''),
                 Some (SerializeJSONProperty (number_text rt) x)],
         spawn_cwd = path_join (cwd rt) ''src/server/python''\<rparr>)"
  by (simp add: start_pipeline_def JSON_stringify_def Let_def)

lemma start_pipeline_Inl:
  assumes "start_pipeline rt batch = Inl e"
  shows "e = RangeError \<or> e = ErrnoException ''spawn E2BIG''"
proof (cases batch)
  case None
  with assms show ?thesis
    by (simp add: start_pipeline_def JSON_stringify_def Let_def spawn_def split: if_splits)
next
  case (Some x)
  with assms show ?thesis
    by (simp add: start_pipeline_Some spawn_def split: if_splits)
qed


lemma POST_catch_other:
  "e = RangeError \<or> e = ErrnoException m \<or> e = SyntaxError \<Longrightarrow>
     POST_catch e = (internal_error, [console_error [Text ''Error processing request:'', Thrown e]])"
  by (auto simp: POST_catch_def internal_error_def)

lemma POST_started:
  assumes "schema_parse BatchSchema b = Inr batch" and "start_pipeline rt batch = Inr sp"
  shows "POST rt (JSON b) = Inr \<lparr>response = started, spawned = [sp], console = []\<rparr>"
  using assms by (simp add: POST_def POST_try_def request_json_def started_def)

lemma POST_not_started:
  assumes "schema_parse BatchSchema b = Inr batch" and "start_pipeline rt batch = Inl e"
  shows "POST rt (JSON b) =
     Inr \<lparr>response = internal_error, spawned = [],
          console = [console_error [Text ''Error processing request:'', Thrown e]]\<rparr>"
proof -
  from start_pipeline_Inl [OF assms(2)]
  have "POST_catch e = (internal_error, [console_error [Text ''Error processing request:'', Thrown e]])"
    by (auto simp: POST_catch_other)
  with assms show ?thesis
    by (simp add: POST_def POST_try_def request_json_def)
qed

lemma POST_invalid:
  assumes "schema_parse BatchSchema b = Inl e"
  shows "POST rt (JSON b) = Inr \<lparr>response = fst (POST_catch e), spawned = [], console = snd (POST_catch e)\<rparr>"
  using assms
  by (simp add: POST_def POST_try_def request_json_def split: prod.splits)

lemma POST_NotJSON:
  "POST rt NotJSON = Inr \<lparr>response = \<lparr>json_body = Failure ''Internal server error'', status = 500\<rparr>,
      spawned = [], console = [console_error [Text ''Error processing request:'', Thrown SyntaxError]]\<rparr>"
  by (simp add: POST_def POST_try_def request_json_def POST_catch_def)

lemma schema_parse_ZodError:
  "schema_parse BatchSchema b = Inl e \<Longrightarrow> \<exists>iss. e = ZodError iss"
  by (auto simp: schema_parse_def split: sum.splits)






lemma length_escape_char: "1 \<le> length (escape_char c)"
  by (simp add: escape_char_def)

lemma length_escaped: "length s \<le> length (concat (map escape_char s))"
proof (induction s)
  case (Cons c s)
  with length_escape_char [of c] show ?case by simp
qed simp

lemma length_QuoteJSONString: "length s \<le> length (QuoteJSONString s)"
  using length_escaped [of s] by (simp add: QuoteJSONString_def)

lemma length_join_with: "x \<in> set xs \<Longrightarrow> length x \<le> length (join_with sep xs)"
  by (induction sep xs rule: join_with.induct) auto

lemma length_in_array:
  "x \<in> set xs \<Longrightarrow>
     length (SerializeJSONProperty num x) \<le> length (SerializeJSONProperty num (JArr xs))"
  using length_join_with [of "SerializeJSONProperty num x" "map (SerializeJSONProperty num) xs" "'',''"]
  by simp

lemma length_in_object:
  assumes "(k, v) \<in> set kvs"
  shows "length (SerializeJSONProperty num v) \<le> length (SerializeJSONProperty num (JObj kvs))"
proof -
  let ?f = "\<lambda>kv. QuoteJSONString (fst kv) @ '':'' @ SerializeJSONProperty num (snd kv)"
  from assms have "?f (k, v) \<in> ?f ` set kvs" by (rule imageI)
  then have "?f (k, v) \<in> set (map ?f kvs)" by (simp only: set_map)
  from length_join_with [OF this, of "'',''"] show ?thesis by simp
qed

lemma spec_valid_big_batch: "spec_valid_body big_batch"
  by (simp add: big_batch_def spec_valid_body_def spec_valid_event_def get_prop_def)

lemma strip_big_batch:
  "strip_batch big_batch = JObj
     [(''events'', JArr [JObj
        [(''id'', JStr big_string), (''type'', JStr ''click''), (''timestamp'', JNum (Finite 17)),
         (''tabId'', JNum (Finite 2)), (''windowId'', JNum (Finite 1)), (''payload'', JObj [])]]),
      (''timestamp'', JNum (Finite 20))]"
  by (simp add: big_batch_def strip_batch_def strip_event_def events_of_def payload_of_def
      get_prop_def keep_pair_simps)

lemma length_big_string: "length big_string = 131072"
  by (simp only: big_string_def length_replicate)

lemma length_big_text: "131072 \<le> length (SerializeJSONProperty num (strip_batch big_batch))"
proof -
  let ?ev = "JObj
        [(''id'', JStr big_string), (''type'', JStr ''click''), (''timestamp'', JNum (Finite 17)),
         (''tabId'', JNum (Finite 2)), (''windowId'', JNum (Finite 1)), (''payload'', JObj [])]"
  have "length big_string \<le> length (SerializeJSONProperty num (JStr big_string))"
    by (simp add: length_QuoteJSONString)
  also have "\<dots> \<le> length (SerializeJSONProperty num ?ev)"
    by (rule length_in_object [of "''id''"]) simp
  also have "\<dots> \<le> length (SerializeJSONProperty num (JArr [?ev]))"
    by (rule length_in_array) simp
  also have "\<dots> \<le> length (SerializeJSONProperty num (strip_batch big_batch))"
    unfolding strip_big_batch by (rule length_in_object [of "''events''"]) simp
  finally show ?thesis by (simp only: length_big_string)
qed

lemma nesting_big: "nesting (strip_batch big_batch) = 4"
  unfolding strip_big_batch by simp

lemma start_pipeline_big:
  "start_pipeline demo_runtime (Some (strip_batch big_batch)) = Inl (ErrnoException ''spawn E2BIG'')"
  using length_big_text [of digits]
  by (simp add: start_pipeline_Some nesting_big spawn_def demo_runtime_def)

lemmas demo_defs = demo_runtime_def demo_event_def demo_batch_def

lemma spec_valid_demo_batch: "spec_valid_body demo_batch"
  by (simp add: demo_defs spec_valid_body_def spec_valid_event_def get_prop_def)

lemma strip_demo_batch:
  "strip_batch demo_batch = JObj
     [(''events'', JArr [JObj
        [(''id'', JStr ''e1''), (''type'', JStr ''click''), (''timestamp'', JNum (Finite 17)),
         (''tabId'', JNum (Finite 2)), (''windowId'', JNum (Finite 1)), (''url'', JStr ''https://jira.com''),
         (''payload'', JObj [(''x'', JNum (Finite 3)), (''target'', JObj [(''tag'', JStr ''a'')])])]]),
      (''timestamp'', JNum (Finite 20))]"
  by (simp add: demo_defs strip_batch_def strip_event_def events_of_def payload_of_def
      get_prop_def keep_pair_simps)

lemma digits_small: "n < 10 \<Longrightarrow> digits n = [''0123456789'' ! n]"
  by (simp add: digits.simps)

lemma serialize_demo:
  \<open>SerializeJSONProperty digits (strip_batch demo_batch) =
    ''{"events":[{"id":"e1","type":"click","timestamp":17,"tabId":2,"windowId":1,"url":"https://jira.com","payload":{"x":3,"target":{"tag":"a"}}}],"timestamp":20}''\<close>
  unfolding strip_demo_batch
  by (simp add: QuoteJSONString_def escape_char_def digits.simps [of 17] digits.simps [of 20] digits_small)

lemma schema_parse_demo: "schema_parse BatchSchema demo_batch = Inr (Some (strip_batch demo_batch))"
  by (simp add: schema_parse_BatchSchema spec_valid_demo_batch)

lemma start_pipeline_demo:
  \<open>start_pipeline demo_runtime (Some (strip_batch demo_batch)) =
     Inr \<lparr>command = ''python3'',
          args = [Some ''/app/src/server/python/group_flows.py'',
            Some ''{"events":[{"id":"e1","type":"click","timestamp":17,"tabId":2,"windowId":1,"url":"https://jira.com","payload":{"x":3,"target":{"tag":"a"}}}],"timestamp":20}''],
          spawn_cwd = ''/app/src/server/python''\<rparr>\<close>
proof -
  have n: "nesting (strip_batch demo_batch) = 5"
    unfolding strip_demo_batch by simp
  show ?thesis
    by (simp add: start_pipeline_Some n demo_runtime_def serialize_demo spawn_def path_join_def)
qed

lemma POST_demo:
  \<open>POST demo_runtime (JSON demo_batch) =
     Inr \<lparr>response = \<lparr>json_body = Success True ''Processing started in background'', status = 200\<rparr>,
          spawned = [\<lparr>command = ''python3'',
             args = [Some ''/app/src/server/python/group_flows.py'',
               Some ''{"events":[{"id":"e1","type":"click","timestamp":17,"tabId":2,"windowId":1,"url":"https://jira.com","payload":{"x":3,"target":{"tag":"a"}}}],"timestamp":20}''],
             spawn_cwd = ''/app/src/server/python''\<rparr>],
          console = []\<rparr>\<close>
  using POST_started [OF schema_parse_demo start_pipeline_demo]
  by (simp add: started_def)

text \<open>
  Claim C1. A body that is JSON but fails the validation of the batch schema is rejected
  before anything of the pipeline runs: whatever the surroundings, the handler spawns no
  process and answers with status 400.
\<close>

theorem invalid_batch_rejected:
  assumes "schema_parse BatchSchema body = Inl e"
  shows "\<exists>out. serve rt (JSON body) evs = Inr out \<and> spawned out = [] \<and> status (response out) = 400"
proof -
  from assms obtain iss where e: "e = ZodError iss"
    by (auto simp: schema_parse_def split: sum.splits)
  show ?thesis
    by (simp add: serve_def POST_invalid [OF assms] e POST_catch_def)
qed

theorem invalid_batch_rejected_witness:
  "schema_parse BatchSchema (JObj [(''timestamp'', JNum (Finite (5::nat)))]) =
     Inl (ZodError [\<lparr>expected = t_array, received = t_undefined, path = [Key ''events'']\<rparr>]) \<and>
   (\<exists>out. serve demo_runtime (JSON (JObj [(''timestamp'', JNum (Finite (5::nat)))])) [close_event (Some 1)] = Inr out \<and>
      spawned out = [] \<and> status (response out) = 400)"
proof -
  have h: "schema_parse BatchSchema (JObj [(''timestamp'', JNum (Finite (5::nat)))]) =
     Inl (ZodError [\<lparr>expected = t_array, received = t_undefined, path = [Key ''events'']\<rparr>])"
    by (simp add: schema_parse_def BatchSchema_def mergeObjectSync_def get_prop_def issues_of_def
        invalid_type_def)
  show ?thesis
    using h invalid_batch_rejected [OF h, of demo_runtime "[close_event (Some 1)]"] by simp
qed

text \<open>
  Claim C4. A body passes validation if and only if it has the shape the specification
  describes (\<open>spec_valid_body\<close>).
\<close>

theorem validation_iff_shape:
  "(\<exists>batch. schema_parse BatchSchema body = Inr batch) \<longleftrightarrow> spec_valid_body body"
  by (simp add: schema_parse_BatchSchema)

theorem validation_iff_shape_witness:
  "spec_valid_body demo_batch \<and> (\<exists>batch. schema_parse BatchSchema demo_batch = Inr batch) \<and>
   \<not> spec_valid_body (JObj [(''timestamp'', JNum (Finite (5::nat))), (''events'', JArr [JNull])]) \<and>
   \<not> (\<exists>batch. schema_parse BatchSchema (JObj [(''timestamp'', JNum (Finite (5::nat))), (''events'', JArr [JNull])]) = Inr batch)"
  using validation_iff_shape [of demo_batch]
    validation_iff_shape [of "JObj [(''timestamp'', JNum (Finite (5::nat))), (''events'', JArr [JNull])]"]
    spec_valid_demo_batch
  by (simp add: spec_valid_body_def spec_valid_event_def get_prop_def)

lemma POST_valid_cases:
  assumes "schema_parse BatchSchema body = Inr batch"
  shows "\<exists>out. POST rt (JSON body) = Inr out \<and>
           (case start_pipeline rt batch of
              Inr sp \<Rightarrow> out = \<lparr>response = started, spawned = [sp], console = []\<rparr>
            | Inl e \<Rightarrow> out = \<lparr>response = internal_error, spawned = [],
                           console = [console_error [Text ''Error processing request:'', Thrown e]]\<rparr>)"
proof (cases "start_pipeline rt batch")
  case (Inl e)
  with POST_not_started [OF assms Inl] show ?thesis by simp
next
  case (Inr sp)
  with POST_started [OF assms Inr] show ?thesis by simp
qed

text \<open>
  Claim C10. The handler answers 400 exactly when the body is JSON and fails the
  validation of the batch schema; a body that is not JSON is answered with status 500
  and \<^verbatim>\<open>Internal server error\<close>; and no exception leaves the handler, whatever the
  request.
\<close>

theorem status_400_iff_validation:
  "(\<exists>out. POST rt request = Inr out \<and>
      (status (response out) = 400 \<longleftrightarrow>
         (\<exists>body e. request = JSON body \<and> schema_parse BatchSchema body = Inl e))) \<and>
   (\<exists>out. POST rt NotJSON = Inr out \<and>
      response out = \<lparr>json_body = Failure ''Internal server error'', status = 500\<rparr>) \<and>
   (\<exists>out. serve rt request evs = Inr out)"
proof -
  have post: "\<exists>out. POST rt request = Inr out \<and>
      (status (response out) = 400 \<longleftrightarrow>
         (\<exists>body e. request = JSON body \<and> schema_parse BatchSchema body = Inl e))"
  proof (cases request)
    case NotJSON
    then show ?thesis by (simp add: POST_NotJSON)
  next
    case (JSON body)
    show ?thesis
    proof (cases "schema_parse BatchSchema body")
      case (Inl e)
      then obtain iss where e: "e = ZodError iss"
        by (auto simp: schema_parse_def split: sum.splits)
      show ?thesis
        by (simp add: JSON POST_invalid [OF Inl] e POST_catch_def Inl)
    next
      case (Inr batch)
      from POST_valid_cases [OF Inr, of rt] obtain out where
        o: "POST rt (JSON body) = Inr out" and "status (response out) \<noteq> 400"
        by (cases "start_pipeline rt batch") (auto simp: started_def internal_error_def)
      then show ?thesis by (simp add: JSON Inr)
    qed
  qed
  then obtain out where "POST rt request = Inr out" by blast
  then have "\<exists>out. serve rt request evs = Inr out" by (simp add: serve_def)
  with post show ?thesis by (simp add: POST_NotJSON)
qed

text \<open>
  Claim C8, as stated, fails: \<open>big_batch\<close> is valid, its JSON text is too long for an
  argument of a process, \<^verbatim>\<open>spawn\<close> throws and the handler answers with status 500
  and no process.
\<close>

theorem success_for_every_valid_batch_counterexample:
  "\<not> isl (schema_parse BatchSchema big_batch) \<and>
   serve demo_runtime (JSON big_batch) [] =
     Inr \<lparr>response = \<lparr>json_body = Failure ''Internal server error'', status = 500\<rparr>,
          spawned = [],
          console = [console_error [Text ''Error processing request:'',
                                    Thrown (ErrnoException ''spawn E2BIG'')]]\<rparr>"
proof -
  have p: "schema_parse BatchSchema big_batch = Inr (Some (strip_batch big_batch))"
    by (simp add: schema_parse_BatchSchema spec_valid_big_batch)
  from POST_not_started [OF p start_pipeline_big] p show ?thesis
    by (simp add: serve_def internal_error_def)
qed

text \<open>
  Claim C8, amended. For a valid batch the response never depends on the events the
  spawned process emits afterwards (none, an \<^verbatim>\<open>error\<close> because the command is not
  found, a \<^verbatim>\<open>close\<close> with any exit code). It is the success body with status 200
  when the batch is serialised and the process spawned; when \<^verbatim>\<open>JSON.stringify\<close> or
  \<^verbatim>\<open>spawn\<close> throws, it is \<^verbatim>\<open>Internal server error\<close> with status 500 and there is no
  process.
\<close>

theorem response_without_awaiting:
  assumes "schema_parse BatchSchema body = Inr batch"
  shows "\<exists>out. serve rt (JSON body) evs = Inr out \<and>
           map_sum id response (serve rt (JSON body) evs') = Inr (response out) \<and>
           (case start_pipeline rt batch of
              Inr sp \<Rightarrow>
                response out = \<lparr>json_body = Success True ''Processing started in background'', status = 200\<rparr> \<and>
                spawned out = [sp]
            | Inl e \<Rightarrow>
                response out = \<lparr>json_body = Failure ''Internal server error'', status = 500\<rparr> \<and>
                spawned out = [])"
proof (cases "start_pipeline rt batch")
  case (Inl e)
  with POST_not_started [OF assms Inl] show ?thesis
    by (simp add: serve_def internal_error_def)
next
  case (Inr sp)
  with POST_started [OF assms Inr] show ?thesis
    by (simp add: serve_def started_def)
qed

theorem response_without_awaiting_witness:
  "schema_parse BatchSchema demo_batch = Inr (Some (strip_batch demo_batch)) \<and>
   (\<exists>out. serve demo_runtime (JSON demo_batch) [] = Inr out \<and>
      map_sum id response
        (serve demo_runtime (JSON demo_batch) [error_event ''spawn python3 ENOENT'', close_event (Some (- 2))])
        = Inr (response out) \<and>
      response out = \<lparr>json_body = Success True ''Processing started in background'', status = 200\<rparr> \<and>
      length (spawned out) = 1)"
proof -
  from response_without_awaiting [OF schema_parse_demo, of demo_runtime "[]"
      "[error_event ''spawn python3 ENOENT'', close_event (Some (- 2))]"]
  show ?thesis
    by (simp only: start_pipeline_demo sum.case schema_parse_demo) auto
qed

text \<open>
  Claim C3, as stated, fails: for the valid example batch whose process cannot start
  because the interpreter is not found (an \<^verbatim>\<open>error\<close> event, then \<^verbatim>\<open>close\<close> with code
  -2), the response is the success response; the failure is in the console output only.
\<close>

theorem failure_not_surfaced_counterexample:
  \<open>serve demo_runtime (JSON demo_batch) [error_event ''spawn python3 ENOENT'', close_event (Some (- 2))] =
     Inr \<lparr>response = \<lparr>json_body = Success True ''Processing started in background'', status = 200\<rparr>,
          spawned = [\<lparr>command = ''python3'',
             args = [Some ''/app/src/server/python/group_flows.py'',
               Some ''{"events":[{"id":"e1","type":"click","timestamp":17,"tabId":2,"windowId":1,"url":"https://jira.com","payload":{"x":3,"target":{"tag":"a"}}}],"timestamp":20}''],
             spawn_cwd = ''/app/src/server/python''\<rparr>],
          console = [console_error [Text ''[Python process] Error: spawn python3 ENOENT''],
                     console_log [Text ''[Python process] Exited with code: -2'']]\<rparr> \<and>
   \<not> reports_failure \<lparr>json_body = Success True ''Processing started in background'', status = 200\<rparr>\<close>
  by (simp add: serve_def POST_demo reports_failure_def code_text_def digits_small)

text \<open>
  Claim C3, amended. When the processing of a valid batch fails after ingestion, the
  response tells of it only if no process could be created: if \<^verbatim>\<open>JSON.stringify\<close> or
  \<^verbatim>\<open>spawn\<close> throws, the handler answers \<^verbatim>\<open>Internal server error\<close> with status 500 and
  logs the exception. Once the process is created, a failure (it cannot start, or it
  exits with a code other than zero) is not in the response, which is the success
  response; the listeners write it to the server console,
  \<^verbatim>\<open>[Python process] Error: ...\<close> and \<^verbatim>\<open>[Python process] Exited with code: ...\<close>.
\<close>

theorem failure_only_logged:
  assumes "schema_parse BatchSchema body = Inr batch"
  shows "\<exists>out. serve rt (JSON body) evs = Inr out \<and>
           (case start_pipeline rt batch of
              Inl e \<Rightarrow>
                response out = \<lparr>json_body = Failure ''Internal server error'', status = 500\<rparr> \<and>
                spawned out = [] \<and>
                console out = [console_error [Text ''Error processing request:'', Thrown e]]
            | Inr sp \<Rightarrow>
                \<not> reports_failure (response out) \<and> spawned out = [sp] \<and>
                console out = map on_event evs \<and>
                (\<forall>m. error_event m \<in> set evs \<longrightarrow>
                   console_error [Text (''[Python process] Error: '' @ m)] \<in> set (console out)) \<and>
                (\<forall>c. close_event c \<in> set evs \<longrightarrow>
                   console_log [Text (''[Python process] Exited with code: '' @ code_text c)]
                     \<in> set (console out)))"
proof (cases "start_pipeline rt batch")
  case (Inl e)
  with POST_not_started [OF assms Inl] show ?thesis
    by (simp add: serve_def internal_error_def)
next
  case (Inr sp)
  have e: "error_event m \<in> set evs \<Longrightarrow>
      console_error [Text (''[Python process] Error: '' @ m)] \<in> on_event ` set evs" for m
    by (metis image_eqI on_event.simps(4))
  have c: "close_event c \<in> set evs \<Longrightarrow>
      console_log [Text (''[Python process] Exited with code: '' @ code_text c)] \<in> on_event ` set evs" for c
    by (metis image_eqI on_event.simps(3))
  from Inr POST_started [OF assms Inr] e c show ?thesis
    by (simp add: serve_def started_def reports_failure_def)
qed

theorem failure_only_logged_witness:
  "schema_parse BatchSchema demo_batch = Inr (Some (strip_batch demo_batch)) \<and>
   (\<exists>out. serve demo_runtime (JSON demo_batch) [error_event ''ENOENT'', close_event (Some 1)] = Inr out \<and>
      \<not> reports_failure (response out) \<and>
      console_error [Text ''[Python process] Error: ENOENT''] \<in> set (console out) \<and>
      console_log [Text ''[Python process] Exited with code: 1''] \<in> set (console out)) \<and>
   schema_parse BatchSchema big_batch = Inr (Some (strip_batch big_batch)) \<and>
   (\<exists>out. serve demo_runtime (JSON big_batch) [] = Inr out \<and>
      response out = \<lparr>json_body = Failure ''Internal server error'', status = 500\<rparr> \<and>
      console out = [console_error [Text ''Error processing request:'',
                                    Thrown (ErrnoException ''spawn E2BIG'')]])"
proof -
  have c: "code_text (Some 1) = ''1''"
    by (simp add: code_text_def digits_small)
  from failure_only_logged [OF schema_parse_demo, of demo_runtime "[error_event ''ENOENT'', close_event (Some 1)]"]
  obtain out where o: "serve demo_runtime (JSON demo_batch) [error_event ''ENOENT'', close_event (Some 1)] = Inr out"
    "\<not> reports_failure (response out)"
    "\<forall>m. error_event m \<in> set [error_event ''ENOENT'', close_event (Some 1)] \<longrightarrow>
              console_error [Text (''[Python process] Error: '' @ m)] \<in> set (console out)"
    "\<forall>c. close_event c \<in> set [error_event ''ENOENT'', close_event (Some 1)] \<longrightarrow>
              console_log [Text (''[Python process] Exited with code: '' @ code_text c)] \<in> set (console out)"
    by (simp only: start_pipeline_demo sum.case) blast
  from o(3) have a: "console_error [Text ''[Python process] Error: ENOENT''] \<in> set (console out)"
    by simp
  from o(4) c have b: "console_log [Text ''[Python process] Exited with code: 1''] \<in> set (console out)"
    by simp
  have p: "schema_parse BatchSchema big_batch = Inr (Some (strip_batch big_batch))"
    by (simp add: schema_parse_BatchSchema spec_valid_big_batch)
  from failure_only_logged [OF p, of demo_runtime "[]"]
  have big: "\<exists>out. serve demo_runtime (JSON big_batch) [] = Inr out \<and>
      response out = \<lparr>json_body = Failure ''Internal server error'', status = 500\<rparr> \<and>
      console out = [console_error [Text ''Error processing request:'',
                                    Thrown (ErrnoException ''spawn E2BIG'')]]"
    by (simp only: start_pipeline_big sum.case) blast
  from o(1,2) a b have "\<exists>out. serve demo_runtime (JSON demo_batch) [error_event ''ENOENT'', close_event (Some 1)] = Inr out \<and>
      \<not> reports_failure (response out) \<and>
      console_error [Text ''[Python process] Error: ENOENT''] \<in> set (console out) \<and>
      console_log [Text ''[Python process] Exited with code: 1''] \<in> set (console out)"
    by (intro exI [of _ out] conjI)
  with schema_parse_demo p big show ?thesis by (intro conjI)
qed















section \<open>Properties of the pipeline stages\<close>

lemma expand_window_members:
  "concat (map memberSessionIds (expand_window cfg first grown rest)) =
     map sessionId (first # grown @ rest)"
  by (induction rest arbitrary: first grown) (simp_all add: close_window_def)

lemma expand_window_nonempty:
  "c \<in> set (expand_window cfg first grown rest) \<Longrightarrow> memberSessionIds c \<noteq> []"
  by (induction rest arbitrary: first grown) (auto simp: close_window_def split: if_splits)

lemma expand_window_span:
  "c \<in> set (expand_window cfg first grown rest) \<Longrightarrow> Suc (length grown) \<le> max 1 (max_span cfg) \<Longrightarrow>
     length (memberSessionIds c) \<le> max 1 (max_span cfg)"
  by (induction rest arbitrary: first grown) (auto simp: close_window_def split: if_splits)

lemma distinct_concat_disjoint:
  "distinct (concat xss) \<Longrightarrow> i < j \<Longrightarrow> j < length xss \<Longrightarrow> set (xss ! i) \<inter> set (xss ! j) = {}"
proof (induction xss arbitrary: i j)
  case Nil
  then show ?case by simp
next
  case (Cons xs xss)
  show ?case
  proof (cases i)
    case 0
    with Cons.prems obtain j' where j: "j = Suc j'" "j' < length xss" by (cases j) auto
    then have "xss ! j' \<in> set xss" by simp
    with Cons.prems(1) have "set xs \<inter> set (xss ! j') = {}" by auto
    with 0 j show ?thesis by simp
  next
    case (Suc i')
    with Cons.prems obtain j' where j: "j = Suc j'" "j' < length xss" "i' < j'" by (cases j) auto
    with Cons.IH [of i' j'] Cons.prems(1) Suc show ?thesis by simp
  qed
qed

text \<open>
  Claim C5. For every ordered sequence of summaries, the member lists of the candidates,
  put end to end, are exactly the sequence of the summaries' session ids: no summary is
  dropped and none is counted twice. When the session ids of the batch are distinct, the
  member sets of any two candidates are disjoint.
\<close>

theorem candidates_partition_summaries:
  "concat (map memberSessionIds (BoundaryDetector cfg summaries)) = map sessionId summaries \<and>
   (distinct (map sessionId summaries) \<longrightarrow>
      (\<forall>i j. i < j \<and> j < length (BoundaryDetector cfg summaries) \<longrightarrow>
         set (memberSessionIds (BoundaryDetector cfg summaries ! i)) \<inter>
         set (memberSessionIds (BoundaryDetector cfg summaries ! j)) = {}))"
proof -
  have c: "concat (map memberSessionIds (BoundaryDetector cfg summaries)) = map sessionId summaries"
    by (cases summaries) (simp_all add: BoundaryDetector_def expand_window_members)
  have "set (memberSessionIds (BoundaryDetector cfg summaries ! i)) \<inter>
         set (memberSessionIds (BoundaryDetector cfg summaries ! j)) = {}"
    if d: "distinct (map sessionId summaries)" and ij: "i < j" "j < length (BoundaryDetector cfg summaries)" for i j
  proof -
    from d c have "distinct (concat (map memberSessionIds (BoundaryDetector cfg summaries)))" by simp
    from distinct_concat_disjoint [OF this, of i j] ij show ?thesis by simp
  qed
  with c show ?thesis by blast
qed


lemma BoundaryDetector_demo:
  "BoundaryDetector demo_config demo_summaries =
     [\<lparr>candidate_startTs = 0, candidate_endTs = 9, memberSessionIds = [''s1'', ''s2'']\<rparr>,
      \<lparr>candidate_startTs = 100, candidate_endTs = 120, memberSessionIds = [''s3'']\<rparr>]"
  by (simp add: BoundaryDetector_def demo_summaries_def demo_config_def mk_summary_def
      continuity_def close_window_def)

theorem candidates_partition_summaries_witness:
  "distinct (map sessionId demo_summaries) \<and>
   map memberSessionIds (BoundaryDetector demo_config demo_summaries) = [[''s1'', ''s2''], [''s3'']] \<and>
   concat (map memberSessionIds (BoundaryDetector demo_config demo_summaries)) = map sessionId demo_summaries \<and>
   set (memberSessionIds (BoundaryDetector demo_config demo_summaries ! 0)) \<inter>
   set (memberSessionIds (BoundaryDetector demo_config demo_summaries ! 1)) = {}"
proof -
  have d: "distinct (map sessionId demo_summaries)"
    by (simp add: demo_summaries_def mk_summary_def)
  have l: "(0::nat) < 1 \<and> 1 < length (BoundaryDetector demo_config demo_summaries)"
    by (simp add: BoundaryDetector_demo)
  from candidates_partition_summaries [of demo_config demo_summaries] d l
  have "concat (map memberSessionIds (BoundaryDetector demo_config demo_summaries)) = map sessionId demo_summaries"
    and "set (memberSessionIds (BoundaryDetector demo_config demo_summaries ! 0)) \<inter>
         set (memberSessionIds (BoundaryDetector demo_config demo_summaries ! 1)) = {}"
    by blast+
  moreover have "map memberSessionIds (BoundaryDetector demo_config demo_summaries) = [[''s1'', ''s2''], [''s3'']]"
    by (simp add: BoundaryDetector_demo)
  ultimately show ?thesis using d by blast
qed


text \<open>
  Claim C6. The label of a candidate is one of WORKFLOW, NOISE and UNFINISHED, and for a
  response of the capability outside these three words it is NOISE.
\<close>

theorem classifier_label_vocabulary:
  "WorkflowClassifier capability candidate members \<in> {WORKFLOW, NOISE, UNFINISHED} \<and>
   (\<forall>answer. capability (candidate, members) = reply answer \<and>
        answer \<notin> {''WORKFLOW'', ''NOISE'', ''UNFINISHED''} \<longrightarrow>
        WorkflowClassifier capability candidate members = NOISE)"
proof -
  have "WorkflowClassifier capability candidate members \<in> {WORKFLOW, NOISE, UNFINISHED}"
    by (cases "WorkflowClassifier capability candidate members") simp_all
  moreover have "WorkflowClassifier capability candidate members = NOISE"
    if "capability (candidate, members) = reply answer" "answer \<notin> {''WORKFLOW'', ''NOISE'', ''UNFINISHED''}" for answer
    using that by (auto simp: WorkflowClassifier_def validate_label_def)
  ultimately show ?thesis by blast
qed

theorem classifier_label_vocabulary_witness:
  "''workflow!'' \<notin> {''WORKFLOW'', ''NOISE'', ''UNFINISHED''} \<and>
   WorkflowClassifier (\<lambda>request. reply ''workflow!'')
     \<lparr>candidate_startTs = 0, candidate_endTs = 9, memberSessionIds = [''s1'', ''s2'']\<rparr> [] = NOISE"
proof -
  have n: "''workflow!'' \<notin> {''WORKFLOW'', ''NOISE'', ''UNFINISHED''}" by simp
  from classifier_label_vocabulary [of "\<lambda>request. reply ''workflow!''"
      "\<lparr>candidate_startTs = 0, candidate_endTs = 9, memberSessionIds = [''s1'', ''s2'']\<rparr>" "[]"]
  have "\<forall>answer. reply ''workflow!'' = reply answer \<and> answer \<notin> {''WORKFLOW'', ''NOISE'', ''UNFINISHED''} \<longrightarrow>
        WorkflowClassifier (\<lambda>request. reply ''workflow!'')
          \<lparr>candidate_startTs = 0, candidate_endTs = 9, memberSessionIds = [''s1'', ''s2'']\<rparr> [] = NOISE"
    by (rule conjunct2)
  then have "reply ''workflow!'' = reply ''workflow!'' \<and> ''workflow!'' \<notin> {''WORKFLOW'', ''NOISE'', ''UNFINISHED''} \<longrightarrow>
        WorkflowClassifier (\<lambda>request. reply ''workflow!'')
          \<lparr>candidate_startTs = 0, candidate_endTs = 9, memberSessionIds = [''s1'', ''s2'']\<rparr> [] = NOISE"
    by (rule spec)
  with n show ?thesis by simp
qed


lemma is_duplicate_merge_into: "is_duplicate w (merge_into incoming existing) = is_duplicate w existing"
  by (simp add: merge_into_def is_duplicate_def toolSetSignature_def)

lemma records_map_merge:
  "records_with_signature w (map (merge_into incoming) stored) = records_with_signature w stored"
  by (induction stored) (simp_all add: records_with_signature_def is_duplicate_merge_into)

lemma records_zero_iff: "records_with_signature w stored = 0 \<longleftrightarrow> \<not> list_ex (is_duplicate w) stored"
  by (simp add: records_with_signature_def list_ex_iff filter_empty_conv)

lemma is_duplicate_refl: "is_duplicate w w"
  by (simp add: is_duplicate_def)

lemma records_submit:
  "records_with_signature w (submit policy cond w stored) =
     (if records_with_signature w stored = 0 \<and> store_accepts cond then 1
      else records_with_signature w stored)"
  by (auto simp: submit_def Deduplicator_def records_zero_iff records_map_merge
      split: merge_policy.splits)
     (simp_all add: records_with_signature_def is_duplicate_refl list_ex_iff filter_empty_conv)

text \<open>
  Claim C7. If the store holds at most one record with the signature of a workflow,
  submitting that workflow twice (a retried batch) leaves at most one such record,
  whatever the policy and whether store and merge succeed; and when a stored workflow
  has the signature of the incoming one, the Deduplicator never decides to store it: by
  default it discards it and the store stays as it is.
\<close>

theorem deduplicator_idempotent:
  assumes "records_with_signature w stored \<le> 1"
  shows "records_with_signature w (submit policy cond2 w (submit policy cond1 w stored)) \<le> 1 \<and>
         (list_ex (is_duplicate w) stored \<longrightarrow>
            Deduplicator no_merge w stored = discard_as_duplicate \<and>
            Deduplicator policy w stored \<noteq> store \<and>
            submit no_merge cond1 w stored = stored)"
proof -
  have "records_with_signature w (submit policy cond2 w (submit policy cond1 w stored)) \<le> 1"
    using assms by (simp add: records_submit)
  moreover have "Deduplicator no_merge w stored = discard_as_duplicate \<and>
      Deduplicator policy w stored \<noteq> store \<and> submit no_merge cond1 w stored = stored"
    if "list_ex (is_duplicate w) stored"
    using that by (simp add: Deduplicator_def submit_def split: merge_policy.splits)
  ultimately show ?thesis by blast
qed

theorem deduplicator_idempotent_witness:
  "records_with_signature demo_workflow [] \<le> 1 \<and>
   submit no_merge demo_conditions demo_workflow [] = [demo_workflow] \<and>
   records_with_signature demo_workflow
     (submit no_merge demo_conditions demo_workflow (submit no_merge demo_conditions demo_workflow [])) \<le> 1 \<and>
   Deduplicator no_merge demo_workflow [demo_workflow] = discard_as_duplicate"
proof -
  have h: "records_with_signature demo_workflow [] \<le> 1"
    by (simp add: records_with_signature_def)
  have s: "submit no_merge demo_conditions demo_workflow [] = [demo_workflow]"
    by (simp add: submit_def Deduplicator_def demo_conditions_def)
  have h': "records_with_signature demo_workflow [demo_workflow] \<le> 1"
    by (simp add: records_with_signature_def)
  have d: "list_ex (is_duplicate demo_workflow) [demo_workflow]"
    by (simp add: is_duplicate_def)
  from deduplicator_idempotent [OF h, of no_merge demo_conditions demo_conditions]
       deduplicator_idempotent [OF h', of no_merge demo_conditions demo_conditions] d s h
  show ?thesis by simp
qed


end
